theory Spec2Isabelle
  imports Complex_Main
begin

section \<open>Python and numpy basics\<close>

text \<open>
  The source is numerical Python (numpy, scipy). Floating-point numbers are modelled by
  the reals, one- and two-dimensional arrays by lists and lists of rows, and every
  exception the source can raise by a value of the type \<open>error\<close>.
\<close>

datatype error = ValueError | IndexError | NameError | UnboundLocalError | LinAlgError

type_synonym vec = "real list"
type_synonym mat = "real list list"
type_synonym point = "real \<times> real \<times> real"

definition ebind :: "error + 'a \<Rightarrow> ('a \<Rightarrow> error + 'b) \<Rightarrow> error + 'b" where
  "ebind m f = (case m of Inl e \<Rightarrow> Inl e | Inr x \<Rightarrow> f x)"

fun efold :: "('a \<Rightarrow> 's \<Rightarrow> error + 's) \<Rightarrow> 'a list \<Rightarrow> 's \<Rightarrow> error + 's" where
  "efold f [] s = Inr s"
| "efold f (x # xs) s = (case f x s of Inl e \<Rightarrow> Inl e | Inr s' \<Rightarrow> efold f xs s')"

definition py_int :: "real \<Rightarrow> int" where
  \<comment> \<open>\<open>int(r)\<close> truncates toward zero.\<close>
  "py_int r = (if 0 \<le> r then \<lfloor>r\<rfloor> else \<lceil>r\<rceil>)"

definition norm_index :: "nat \<Rightarrow> int \<Rightarrow> nat option" where
  \<comment> \<open>Python's index rule on a sequence of \<open>n\<close> items: \<open>-n..-1\<close> count from the end.\<close>
  "norm_index n i =
     (if 0 \<le> i \<and> i < int n then Some (nat i)
      else if - int n \<le> i \<and> i < 0 then Some (nat (int n + i))
      else None)"

definition getitem :: "'a list \<Rightarrow> int \<Rightarrow> error + 'a" where
  \<comment> \<open>\<open>xs[i]\<close>\<close>
  "getitem xs i =
     (case norm_index (length xs) i of None \<Rightarrow> Inl IndexError | Some j \<Rightarrow> Inr (xs ! j))"

definition setitem :: "'a list \<Rightarrow> int \<Rightarrow> 'a \<Rightarrow> error + 'a list" where
  \<comment> \<open>\<open>xs[i] = v\<close>\<close>
  "setitem xs i v =
     (case norm_index (length xs) i of None \<Rightarrow> Inl IndexError | Some j \<Rightarrow> Inr (xs[j := v]))"

definition np_unique :: "real list \<Rightarrow> real list" where
  \<comment> \<open>\<open>np.unique\<close>: the sorted distinct values.\<close>
  "np_unique xs = sort (remdups xs)"

definition nonzero :: "('a \<Rightarrow> bool) \<Rightarrow> 'a list \<Rightarrow> nat list" where
  \<comment> \<open>\<open>np.nonzero(cond)[0]\<close>: the indices of the rows on which the condition holds.\<close>
  "nonzero P xs = filter (\<lambda>i. P (xs ! i)) [0..<length xs]"

definition eps_index :: "real \<Rightarrow> int" where
  \<comment> \<open>\<open>int(1.e-6 + v)\<close>, the source's way of reading an index out of a float column.\<close>
  "eps_index v = py_int (1 / 1000000 + v)"

section \<open>Calibration pre-processing of the joint inverters\<close>

record calshot =
  cid :: real
  ctobs :: real
  crcv :: real
  csx :: real
  csy :: real
  csz :: real

record calstate =
  rcv_cal :: "point list option"
  Msc_cal :: "mat list"

text \<open>
  The body of \<open>for nc in range(ncal)\<close>, shared by \<open>jointHypoVel\<close> and
  \<open>jointHypoVelPS\<close>; \<open>ncols\<close> is the width of the static-correction selector
  (\<open>nsta\<close> in the single-phase solver, \<open>2*nsta\<close> in the two-phase one). The field
  \<open>rcv_cal\<close> of the state is the binding of the name \<open>rcv_cal\<close>: \<open>None\<close> when the name is
  not bound. In \<open>rcv_cal[i,:] = rcv[...]\<close> Python evaluates the right-hand side first.
\<close>

definition cal_fill_row :: "point list \<Rightarrow> calshot list \<Rightarrow> nat \<Rightarrow> calstate \<Rightarrow> error + calstate" where
  "cal_fill_row rcv caldata i st =
     ebind (getitem rcv (eps_index (crcv (caldata ! i)))) (\<lambda>p.
       case rcv_cal st of
         None \<Rightarrow> Inl NameError
       | Some buf \<Rightarrow> ebind (setitem buf (int i) p) (\<lambda>buf'. Inr (st\<lparr>rcv_cal := Some buf'\<rparr>)))"

definition cal_sc_row :: "nat \<Rightarrow> calshot list \<Rightarrow> nat list \<Rightarrow> nat \<Rightarrow> mat \<Rightarrow> error + mat" where
  \<comment> \<open>\<open>tmp[n, int(1.e-6+caldata[indr[n],2])] = 1.\<close>\<close>
  "cal_sc_row ncols caldata indr n tmp =
     ebind (setitem (tmp ! n) (eps_index (crcv (caldata ! (indr ! n)))) 1) (\<lambda>r.
       Inr (tmp[n := r]))"

definition cal_shot :: "bool \<Rightarrow> nat \<Rightarrow> point list \<Rightarrow> calshot list \<Rightarrow> real \<Rightarrow> calstate
    \<Rightarrow> error + calstate" where
  "cal_shot use_sc ncols rcv caldata c st =
     (let indr = nonzero (\<lambda>r. cid r = c) caldata; nst = length indr in
      ebind (efold (cal_fill_row rcv caldata) indr st) (\<lambda>st1.
        if use_sc then
          ebind (efold (cal_sc_row ncols caldata indr) [0..<nst]
                   (replicate nst (replicate ncols 0))) (\<lambda>tmp.
            Inr (st1\<lparr>Msc_cal := Msc_cal st1 @ [tmp]\<rparr>))
        else Inr st1))"

definition cal_loop :: "bool \<Rightarrow> nat \<Rightarrow> point list \<Rightarrow> calshot list \<Rightarrow> calstate \<Rightarrow> error + calstate" where
  "cal_loop use_sc ncols rcv caldata st =
     efold (cal_shot use_sc ncols rcv caldata) (np_unique (map cid caldata)) st"

definition nsta_of :: "bool \<Rightarrow> point list \<Rightarrow> nat" where
  "nsta_of use_sc rcv = (if use_sc then length rcv else 0)"

text \<open>
  \<open>jointHypoVel\<close>, lines 529-548: the buffer is allocated by
  \<open>rcv_cal = np.empty((caldata.shape[0],3))\<close> before the loop (the contents of
  \<open>np.empty\<close> are arbitrary; zeros here).
\<close>

definition jointHypoVel_cal :: "bool \<Rightarrow> point list \<Rightarrow> calshot list \<Rightarrow> error + calstate" where
  "jointHypoVel_cal use_sc rcv caldata =
     (if length caldata > 0 then
        cal_loop use_sc (nsta_of use_sc rcv) rcv caldata
          \<lparr>rcv_cal = Some (replicate (length caldata) (0, 0, 0)), Msc_cal = []\<rparr>
      else Inr \<lparr>rcv_cal = None, Msc_cal = []\<rparr>)"

text \<open>
  \<open>jointHypoVelPS\<close>, lines 1056-1075: no assignment to the name \<open>rcv_cal\<close> precedes the
  loop, and the function has no local of that name, so the name is looked up among the
  module's globals: \<open>glob\<close> is that binding at the time of the call (\<open>None\<close> for a caller
  that imports the module, which defines \<open>rcv_cal\<close> only inside its main driver).
\<close>

definition jointHypoVelPS_cal :: "point list option \<Rightarrow> bool \<Rightarrow> point list \<Rightarrow> calshot list
    \<Rightarrow> error + calstate" where
  "jointHypoVelPS_cal glob use_sc rcv caldata =
     (if length caldata > 0 then
        cal_loop use_sc (2 * nsta_of use_sc rcv) rcv caldata \<lparr>rcv_cal = glob, Msc_cal = []\<rparr>
      else Inr \<lparr>rcv_cal = glob, Msc_cal = []\<rparr>)"

section \<open>Clamped velocity update of the joint inverters\<close>



text \<open>
  \<open>jointHypoVelPS\<close>: the velocity variables of the solver. \<open>st_V\<close> is the stacked model
  vector \<open>V\<close> (\<open>Vp\<close> above \<open>Vs\<close>, or above the ratio \<open>VsVp\<close> when \<open>invert_VsVp\<close> is set).
\<close>

record velPS =
  st_V :: vec
  st_Vp :: vec
  st_Vs :: vec
  st_VsVp :: vec

definition velPS_init :: "bool \<Rightarrow> vec \<Rightarrow> vec \<Rightarrow> velPS" where
  \<comment> \<open>lines 1077-1095, with array-valued \<open>Vinit\<close>; \<open>VsVp\<close> is unbound (here empty)
      when \<open>invert_VsVp\<close> is off\<close>
  "velPS_init invert_VsVp Vp0 Vs0 =
     (if invert_VsVp then
        \<lparr>st_V = Vp0 @ map2 (/) Vs0 Vp0, st_Vp = Vp0, st_Vs = Vs0, st_VsVp = map2 (/) Vs0 Vp0\<rparr>
      else \<lparr>st_V = Vp0 @ Vs0, st_Vp = Vp0, st_Vs = Vs0, st_VsVp = []\<rparr>)"


definition velPS_inv :: "bool \<Rightarrow> nat \<Rightarrow> velPS \<Rightarrow> bool" where
  \<comment> \<open>how the solver's velocity variables hang together between two outer iterations\<close>
  "velPS_inv invert_VsVp nnodes st =
     (length (st_V st) = 2 * nnodes \<and> st_Vp st = take nnodes (st_V st)
      \<and> (if invert_VsVp then st_VsVp st = drop nnodes (st_V st)
          else st_Vs st = drop nnodes (st_V st)))"

section \<open>Velocity tie points of the two-phase solver\<close>

record vpt =
  pv :: real
  px :: real
  py :: real
  pz :: real
  pphase :: real

definition tdist :: "vpt \<Rightarrow> vpt \<Rightarrow> real" where
  \<comment> \<open>\<open>np.sqrt(np.sum((a[1:4] - b[1:4])**2))\<close>\<close>
  "tdist a b = sqrt ((px a - px b)\<^sup>2 + (py a - py b)\<^sup>2 + (pz a - pz b)\<^sup>2)"

definition tie_step :: "vpt list \<Rightarrow> nat list \<Rightarrow> nat \<Rightarrow> vpt list \<Rightarrow> error + vpt list" where
  \<comment> \<open>the body of \<open>for i in i_s\<close>: the inner \<open>for ii in i_p\<close> stops at the first
      \<open>P\<close> point closer than \<open>0.00001\<close>; its \<open>else\<close> branch raises\<close>
  "tie_step Vpts i_p i Vpts2 =
     (case find (\<lambda>ii. tdist (Vpts2 ! i) (Vpts ! ii) < 1 / 100000) i_p of
        None \<Rightarrow> Inl ValueError
      | Some ii \<Rightarrow> Inr (Vpts2[i := (Vpts2 ! i)\<lparr>pv := pv (Vpts ! i) / pv (Vpts ! ii)\<rparr>]))"

definition tie_ratio :: "vpt list \<Rightarrow> error + vpt list" where
  \<comment> \<open>\<open>jointHypoVelPS\<close>, lines 1121-1132 (\<open>invert_VsVp\<close> set): the table \<open>Vpts2\<close>\<close>
  "tie_ratio Vpts =
     (let i_p = nonzero (\<lambda>r. pphase r = 0) Vpts;
          i_s = nonzero (\<lambda>r. pphase r = 1) Vpts
      in efold (tie_step Vpts i_p) i_s Vpts)"

definition collocated :: "vpt list \<Rightarrow> nat \<Rightarrow> nat \<Rightarrow> bool" where
  \<comment> \<open>row \<open>ii\<close> is a \<open>P\<close> tie point at distance below \<open>1e-5\<close> of row \<open>i\<close>\<close>
  "collocated Vpts i ii =
     (ii < length Vpts \<and> pphase (Vpts ! ii) = 0 \<and> tdist (Vpts ! i) (Vpts ! ii) < 1 / 100000)"

definition same_place :: "vpt \<Rightarrow> vpt \<Rightarrow> bool" where
  "same_place a b = (px a = px b \<and> py a = py b \<and> pz a = pz b \<and> pphase a = pphase b)"

section \<open>Normal equations of the joint inverters\<close>

text \<open>
  Sparse matrices are modelled densely, as lists of rows. \<open>n\<close> is the number of unknowns
  (\<open>nnodes + nsta\<close>, or \<open>2*nnodes + 2*nsta\<close> in the two-phase solver): every matrix below
  has \<open>n\<close> columns.
\<close>

definition gram :: "nat \<Rightarrow> mat \<Rightarrow> mat" where
  \<comment> \<open>\<open>M.T * M\<close> for a matrix \<open>M\<close> with \<open>n\<close> columns\<close>
  "gram n M = map (\<lambda>i. map (\<lambda>j. (\<Sum>r\<leftarrow>M. r ! i * r ! j)) [0..<n]) [0..<n]"

definition outer :: "vec \<Rightarrow> mat" where
  \<comment> \<open>\<open>u * u.T\<close> for a column \<open>u\<close>\<close>
  "outer u = map (\<lambda>a. map (\<lambda>b. a * b) u) u"

definition fro :: "mat \<Rightarrow> real" where
  \<comment> \<open>\<open>spl.norm\<close>: the Frobenius norm\<close>
  "fro A = sqrt (\<Sum>r\<leftarrow>A. \<Sum>a\<leftarrow>r. a\<^sup>2)"

definition madd :: "mat \<Rightarrow> mat \<Rightarrow> mat" where
  "madd A B = map2 (map2 (+)) A B"

definition smul :: "real \<Rightarrow> mat \<Rightarrow> mat" where
  "smul c A = map (map ((*) c)) A"

record lagrangians =
  par_lmbda :: real
  par_gamma :: real
  par_alpha :: real
  par_wzK :: real

definition reg_lmbda :: "lagrangians \<Rightarrow> real \<Rightarrow> real \<Rightarrow> real" where
  \<comment> \<open>\<open>lmbda = par.lmbda * nM / nK\<close>\<close>
  "reg_lmbda par nM nK = par_lmbda par * nM / nK"

definition reg_gamma :: "lagrangians \<Rightarrow> real \<Rightarrow> real \<Rightarrow> real" where
  \<comment> \<open>\<open>if nP != 0.0: gamma = par.gamma * nM / nP\<close>, \<open>else: gamma = par.gamma\<close>\<close>
  "reg_gamma par nM nP = (if nP \<noteq> 0 then par_gamma par * nM / nP else par_gamma par)"

definition reg_alpha :: "lagrangians \<Rightarrow> real \<Rightarrow> real \<Rightarrow> real" where
  \<comment> \<open>\<open>alpha = par.alpha * nM / nD\<close>\<close>
  "reg_alpha par nM nD = par_alpha par * nM / nD"

text \<open>
  Lines 734-746 (and 1372-1384): the matrix \<open>A\<close> before the tie-point term, from \<open>M1\<close>, the
  padded smoothing matrices \<open>Kx1\<close>, \<open>Ky1\<close>, \<open>Kz1\<close> (whose products \<open>KtKx\<close>, \<open>KtKy\<close>, \<open>KtKz\<close>
  and norm \<open>nK\<close> are computed once before the iterations), the padded penalty derivative
  \<open>dP1\<close> and the selector \<open>u1\<close>. The right-hand side \<open>b\<close>, assembled by the same lines, has
  no part in \<open>A\<close> and is left out.
\<close>

definition normal_base :: "lagrangians \<Rightarrow> nat \<Rightarrow> mat \<Rightarrow> mat \<Rightarrow> mat \<Rightarrow> mat \<Rightarrow> mat \<Rightarrow> vec \<Rightarrow> mat" where
  "normal_base par n Kx1 Ky1 Kz1 M1 dP1 u1 =
     (let KtKx = gram n Kx1; KtKy = gram n Ky1; KtKz = gram n Kz1; nK = fro KtKx;
          tmp1 = gram n M1; nM = fro tmp1;
          tmp3 = gram n dP1; nP = fro tmp3;
          tmp4 = outer u1;
          lmbda = reg_lmbda par nM nK;
          gamma = reg_gamma par nM nP
      in madd (madd (madd (madd (madd tmp1 (smul lmbda KtKx)) (smul lmbda KtKy))
                 (smul (par_wzK par * lmbda) KtKz)) (smul gamma tmp3)) tmp4)"

definition tie_term :: "lagrangians \<Rightarrow> nat \<Rightarrow> mat \<Rightarrow> mat \<Rightarrow> mat \<Rightarrow> mat" where
  \<comment> \<open>\<open>tmp5 = D1.T * D1; nD = spl.norm(tmp5); alpha = par.alpha * nM / nD; A += alpha * tmp5\<close>\<close>
  "tie_term par n M1 D1 A =
     (let nM = fro (gram n M1); tmp5 = gram n D1; nD = fro tmp5
      in madd A (smul (reg_alpha par nM nD) tmp5))"

text \<open>
  \<open>jointHypoVel\<close>, lines 734-761. \<open>tie\<close> is the matrix \<open>D1\<close>, built before the iterations
  when \<open>Vpts\<close> is not empty (\<open>None\<close> otherwise); the test of line 756 is \<open>Vpts.shape[0] > 0\<close>.
\<close>

definition jointHypoVel_A :: "lagrangians \<Rightarrow> nat \<Rightarrow> mat \<Rightarrow> mat \<Rightarrow> mat \<Rightarrow> mat \<Rightarrow> mat \<Rightarrow> vec
    \<Rightarrow> mat option \<Rightarrow> mat" where
  "jointHypoVel_A par n Kx1 Ky1 Kz1 M1 dP1 u1 tie =
     (let A = normal_base par n Kx1 Ky1 Kz1 M1 dP1 u1
      in case tie of None \<Rightarrow> A | Some D1 \<Rightarrow> tie_term par n M1 D1 A)"

text \<open>
  \<open>jointHypoVelPS\<close>, lines 1372-1399. The test of line 1394 reads \<open>Vpts2.shape[0]\<close>, and
  the name \<open>Vpts2\<close> is bound only when \<open>Vpts\<close> is not empty: without tie points the
  test raises after \<open>A\<close> has been assigned. The result is the exception raised, if any,
  and the value of \<open>A\<close> when the lines end.
\<close>

definition jointHypoVelPS_A :: "lagrangians \<Rightarrow> nat \<Rightarrow> mat \<Rightarrow> mat \<Rightarrow> mat \<Rightarrow> mat \<Rightarrow> mat \<Rightarrow> vec
    \<Rightarrow> mat option \<Rightarrow> error option \<times> mat" where
  "jointHypoVelPS_A par n Kx1 Ky1 Kz1 M1 dP1 u1 tie =
     (let A = normal_base par n Kx1 Ky1 Kz1 M1 dP1 u1
      in case tie of None \<Rightarrow> (Some UnboundLocalError, A)
         | Some D1 \<Rightarrow> (None, tie_term par n M1 D1 A))"

section \<open>Constant-velocity locators\<close>

record obs =
  o_ev :: real
  o_t :: real
  o_rcv :: real

record obsPS = obs +
  o_phase :: real

record hypo =
  h_id :: real
  h_t0 :: real
  h_x :: real
  h_y :: real
  h_z :: real

text \<open>
  Arrays that the source mutates in place live in a store: a list of hypocenter tables,
  a table's address being its position. \<open>hinit.copy()\<close> allocates a new address.
\<close>

type_synonym store = "hypo list list"
type_synonym dh4 = "real \<times> real \<times> real \<times> real"

text \<open>
  The outcome of a numpy linear solver: it raises \<open>LinAlgError\<close>, or returns a vector
  that is not all finite, or returns a finite vector.
\<close>

datatype 'a linres = Raised | NonFinite | Finite 'a

fun emap :: "('a \<Rightarrow> error + 'b) \<Rightarrow> 'a list \<Rightarrow> error + 'b list" where
  "emap f [] = Inr []"
| "emap f (x # xs) = ebind (f x) (\<lambda>y. ebind (emap f xs) (\<lambda>ys. Inr (y # ys)))"

definition bc2 :: "(real \<Rightarrow> real \<Rightarrow> real) \<Rightarrow> vec \<Rightarrow> vec \<Rightarrow> error + vec" where
  \<comment> \<open>an elementwise operation of two one-dimensional arrays, with numpy's broadcasting\<close>
  "bc2 f a b =
     (if length a = length b then Inr (map2 f a b)
      else if length a = 1 then Inr (map (f (hd a)) b)
      else if length b = 1 then Inr (map (\<lambda>u. f u (hd b)) a)
      else Inl ValueError)"

definition jac_row :: "real \<Rightarrow> point \<Rightarrow> vec" where
  \<comment> \<open>a row of \<open>H\<close>: \<open>[1, -1/V * dx/ds, -1/V * dy/ds, -1/V * dz/ds]\<close>\<close>
  "jac_row v d =
     (case d of (dx, dy, dz) \<Rightarrow>
        (let ds = sqrt (dx * dx + dy * dy + dz * dz)
         in [1, - 1 / v * dx / ds, - 1 / v * dy / ds, - 1 / v * dz / ds]))"

definition Ht_r :: "nat \<Rightarrow> mat \<Rightarrow> vec \<Rightarrow> vec" where
  \<comment> \<open>\<open>np.dot(H.T, r)\<close> for \<open>H\<close> with \<open>n\<close> columns\<close>
  "Ht_r n H r = map (\<lambda>i. (\<Sum>(row, ri)\<leftarrow>zip H r. row ! i * ri)) [0..<n]"

definition eye :: "nat \<Rightarrow> mat" where
  "eye n = map (\<lambda>i. map (\<lambda>j. if i = j then 1 else 0) [0..<n]) [0..<n]"

definition ridge :: "nat \<Rightarrow> mat \<Rightarrow> mat" where
  \<comment> \<open>\<open>np.dot(H.T, H) + 1e-9 * np.eye(n)\<close>\<close>
  "ridge n A = madd A (smul (1 / 10 ^ 9) (eye n))"

definition norm2 :: "vec \<Rightarrow> real" where
  "norm2 r = sqrt (\<Sum>a\<leftarrow>r. a\<^sup>2)"

definition shift_rows :: "real \<Rightarrow> dh4 \<Rightarrow> hypo list \<Rightarrow> hypo list" where
  \<comment> \<open>\<open>loc[inh,1:] += dh\<close> with \<open>inh = eid==loc[:,0]\<close>\<close>
  "shift_rows e dh loc =
     (case dh of (d0, d1, d2, d3) \<Rightarrow>
        map (\<lambda>h. if h_id h = e
                  then h\<lparr>h_t0 := h_t0 h + d0, h_x := h_x h + d1, h_y := h_y h + d2,
                         h_z := h_z h + d3\<rparr>
                  else h) loc)"

definition converged :: "real \<Rightarrow> dh4 \<Rightarrow> bool" where
  \<comment> \<open>\<open>np.sum(np.abs(dh[1:])<convh) == 3\<close>\<close>
  "converged convh dh =
     (case dh of (d0, d1, d2, d3) \<Rightarrow> \<bar>d1\<bar> < convh \<and> \<bar>d2\<bar> < convh \<and> \<bar>d3\<bar> < convh)"

text \<open>
  One pass of the body of \<open>for it in range(maxit)\<close> up to the solution \<open>dh\<close>: the norm of
  the residuals and the step, \<open>None\<close> for the step when the fallback fails too (the source
  prints a message and leaves the loop). \<open>solve\<close> stands for \<open>np.linalg.solve\<close> and \<open>pinv\<close>
  for the lines of the \<open>try\<close> block (\<open>None\<close>: \<open>np.linalg.svd\<close> raises \<open>LinAlgError\<close>).
  \<open>x\<close>, \<open>t\<close> and \<open>vel\<close> are the receiver coordinates, arrival times and velocities of the
  event's observations.
\<close>

definition gn_step :: "(mat \<Rightarrow> vec \<Rightarrow> dh4 linres) \<Rightarrow> (mat \<Rightarrow> vec \<Rightarrow> dh4 option) \<Rightarrow> real
    \<Rightarrow> point list \<Rightarrow> vec \<Rightarrow> vec \<Rightarrow> hypo list \<Rightarrow> error + (real \<times> dh4 option)" where
  "gn_step solve pinv e x t vel loc =
     (case filter (\<lambda>h. h_id h = e) loc of
        [] \<Rightarrow> Inl IndexError
      | h0 # hs \<Rightarrow>
          (let tinit = map h_t0 (h0 # hs);
               d = map (\<lambda>(px, py, pz). (px - h_x h0, py - h_y h0, pz - h_z h0)) x;
               ds = map (\<lambda>(dx, dy, dz). sqrt (dx * dx + dy * dy + dz * dz)) d
           in ebind (bc2 (+) tinit (map2 (/) ds vel)) (\<lambda>tcalc.
                let H = map2 jac_row vel d in
                ebind (bc2 (-) t tcalc) (\<lambda>r.
                  if length r \<noteq> length H then Inl ValueError
                  else (case solve (gram 4 H) (Ht_r 4 H r) of
                          Raised \<Rightarrow> Inl LinAlgError
                        | NonFinite \<Rightarrow> Inr (norm2 r, pinv (ridge 4 (gram 4 H)) (Ht_r 4 H r))
                        | Finite dh \<Rightarrow> Inr (norm2 r, Some dh))))))"

fun gn_loop :: "(hypo list \<Rightarrow> error + (real \<times> dh4 option)) \<Rightarrow> real \<Rightarrow> real \<Rightarrow> nat \<Rightarrow> nat
    \<Rightarrow> store \<Rightarrow> vec \<Rightarrow> store \<times> vec \<times> error option" where
  "gn_loop stepf convh e loc 0 hp res = (hp, res, None)"
| "gn_loop stepf convh e loc (Suc n) hp res =
     (case stepf (hp ! loc) of
        Inl err \<Rightarrow> (hp, res, Some err)
      | Inr (rn, None) \<Rightarrow> (hp, res @ [rn], None)
      | Inr (rn, Some dh) \<Rightarrow>
          (let hp' = hp[loc := shift_rows e dh (hp ! loc)]
           in if converged convh dh then (hp', res @ [rn], None)
              else gn_loop stepf convh e loc n hp' (res @ [rn])))"

definition locate_event :: "(mat \<Rightarrow> vec \<Rightarrow> dh4 linres) \<Rightarrow> (mat \<Rightarrow> vec \<Rightarrow> dh4 option)
    \<Rightarrow> ('a obs_scheme \<Rightarrow> error + real) \<Rightarrow> 'a obs_scheme list \<Rightarrow> point list \<Rightarrow> nat \<Rightarrow> real
    \<Rightarrow> nat \<Rightarrow> real \<Rightarrow> store \<Rightarrow> store \<times> vec \<times> error option" where
  \<comment> \<open>the body of \<open>for eid in evID\<close>; \<open>vel_of\<close> gives the velocity of an observation\<close>
  "locate_event solve pinv vel_of data rcv maxit convh loc e hp =
     (let rows = filter (\<lambda>r. o_ev r = e) data in
      case emap (\<lambda>r. getitem rcv (eps_index (o_rcv r))) rows of
        Inl err \<Rightarrow> (hp, [], Some err)
      | Inr x \<Rightarrow>
          (case emap vel_of rows of
             Inl err \<Rightarrow> (hp, [], Some err)
           | Inr vel \<Rightarrow>
               (case gn_loop (gn_step solve pinv e x (map o_t rows) vel) convh e loc maxit hp []
                of (hp', r, err) \<Rightarrow> (hp', r @ replicate (maxit - length r) 0, err))))"

fun ev_loop :: "(real \<Rightarrow> store \<Rightarrow> store \<times> vec \<times> error option) \<Rightarrow> real list \<Rightarrow> store \<Rightarrow> mat
    \<Rightarrow> store \<times> mat \<times> error option" where
  "ev_loop f [] hp res = (hp, res, None)"
| "ev_loop f (e # es) hp res =
     (case f e hp of
        (hp', r, Some err) \<Rightarrow> (hp', res, Some err)
      | (hp', r, None) \<Rightarrow> ev_loop f es hp' (res @ [r]))"

definition locator :: "(mat \<Rightarrow> vec \<Rightarrow> dh4 linres) \<Rightarrow> (mat \<Rightarrow> vec \<Rightarrow> dh4 option)
    \<Rightarrow> ('a obs_scheme \<Rightarrow> error + real) \<Rightarrow> store \<Rightarrow> 'a obs_scheme list \<Rightarrow> point list \<Rightarrow> nat
    \<Rightarrow> nat \<Rightarrow> real \<Rightarrow> store \<times> (error + nat \<times> mat)" where
  \<comment> \<open>the common text of \<open>hypoloc\<close> and \<open>hypolocPS\<close>: \<open>loc = hinit.copy()\<close>, the loop over
      the events, \<open>return loc, res\<close>; \<open>hinit\<close> is the address of the caller's table\<close>
  "locator solve pinv vel_of hp data rcv hinit maxit convh =
     (let loc = length hp;
          hp1 = hp @ [hp ! hinit]
      in case ev_loop (locate_event solve pinv vel_of data rcv maxit convh loc)
                (np_unique (map o_ev data)) hp1 []
         of (hp', res, Some err) \<Rightarrow> (hp', Inl err)
          | (hp', res, None) \<Rightarrow> (hp', Inr (loc, res)))"

definition hypoloc :: "(mat \<Rightarrow> vec \<Rightarrow> dh4 linres) \<Rightarrow> (mat \<Rightarrow> vec \<Rightarrow> dh4 option)
    \<Rightarrow> store \<Rightarrow> obs list \<Rightarrow> point list \<Rightarrow> real \<Rightarrow> nat \<Rightarrow> nat \<Rightarrow> real
    \<Rightarrow> store \<times> (error + nat \<times> mat)" where
  "hypoloc solve pinv hp data rcv V hinit maxit convh =
     locator solve pinv (\<lambda>r. Inr V) hp data rcv hinit maxit convh"

definition hypolocPS :: "(mat \<Rightarrow> vec \<Rightarrow> dh4 linres) \<Rightarrow> (mat \<Rightarrow> vec \<Rightarrow> dh4 option)
    \<Rightarrow> store \<Rightarrow> obsPS list \<Rightarrow> point list \<Rightarrow> real \<times> real \<Rightarrow> nat \<Rightarrow> nat \<Rightarrow> real
    \<Rightarrow> store \<times> (error + nat \<times> mat)" where
  \<comment> \<open>\<open>vel[n] = V[int(1.e-6+ph[n])]\<close> on the tuple \<open>V\<close>\<close>
  "hypolocPS solve pinv hp data rcv V hinit maxit convh =
     locator solve pinv (\<lambda>r. getitem [fst V, snd V] (eps_index (o_phase r)))
       hp data rcv hinit maxit convh"

text \<open>
  \<open>np.linalg.solve\<close> in exact arithmetic: it raises \<open>LinAlgError\<close> on a singular matrix
  and returns the solution otherwise (here by Cramer's rule).
\<close>

fun det :: "mat \<Rightarrow> real" where
  "det [] = 1"
| "det (r # rs) =
     (\<Sum>j\<leftarrow>[0..<length r]. (- 1) ^ j * r ! j * det (map (\<lambda>row. take j row @ drop (Suc j) row) rs))"

definition cramer :: "mat \<Rightarrow> vec \<Rightarrow> vec" where
  "cramer A b = map (\<lambda>i. det (map2 (\<lambda>row bi. row[i := bi]) A b) / det A) [0..<length A]"

definition np_linalg_solve :: "mat \<Rightarrow> vec \<Rightarrow> dh4 linres" where
  "np_linalg_solve A b =
     (if det A = 0 then Raised
      else (let c = cramer A b in Finite (c ! 0, c ! 1, c ! 2, c ! 3)))"

definition no_pinv :: "mat \<Rightarrow> vec \<Rightarrow> dh4 option" where
  \<comment> \<open>a fallback that always fails, for runs that never reach it\<close>
  "no_pinv A b = None"

section \<open>The grid\<close>

record grid =
  gx :: vec
  gy :: vec
  gz :: vec
  gdx :: real

definition Grid3D :: "vec \<Rightarrow> vec \<Rightarrow> vec \<Rightarrow> error + grid" where
  \<comment> \<open>\<open>Grid3D.__init__\<close>: \<open>x[1]\<close>, \<open>y[1]\<close>, \<open>z[1]\<close> are read, and the cells must be cubic\<close>
  "Grid3D x y z =
     (if length x < 2 \<or> length y < 2 \<or> length z < 2 then Inl IndexError
      else if x ! 1 - x ! 0 = y ! 1 - y ! 0 \<and> x ! 1 - x ! 0 = z ! 1 - z ! 0
      then Inr \<lparr>gx = x, gy = y, gz = z, gdx = x ! 1 - x ! 0\<rparr>
      else Inl ValueError)"


definition ind :: "grid \<Rightarrow> int \<Rightarrow> int \<Rightarrow> int \<Rightarrow> int" where
  "ind g i j k = (i * int (length (gy g)) + j) * int (length (gz g)) + k"




section \<open>Per-event relocation inside the joint inverters\<close>

type_synonym ray = "point list"








definition ray_dir :: "ray \<Rightarrow> hypo list \<Rightarrow> nat list \<Rightarrow> error + vec" where
  \<comment> \<open>\<open>d = (raysi[1,:]-hyp0[indh,2:]).flatten()\<close>\<close>
  "ray_dir raysi hyp0 indh =
     ebind (getitem raysi 1) (\<lambda>p.
       case p of (rx, ry, rz) \<Rightarrow>
         Inr (concat (map (\<lambda>i. [rx - h_x (hyp0 ! i), ry - h_y (hyp0 ! i), rz - h_z (hyp0 ! i)])
                indh)))"

definition jac_entries :: "nat \<Rightarrow> real \<Rightarrow> vec \<Rightarrow> error + vec" where
  \<comment> \<open>\<open>ds = np.sqrt(np.sum(d*d))\<close> and the entries \<open>-1./V0 * d[c]/ds\<close> for \<open>c < m\<close>\<close>
  "jac_entries m V0 d =
     (let ds = sqrt (\<Sum>a\<leftarrow>d. a * a)
      in emap (\<lambda>c. ebind (getitem d (int c)) (\<lambda>dc. Inr (- 1 / V0 * dc / ds))) [0..<m])"

definition set_cols :: "nat \<Rightarrow> vec \<Rightarrow> vec \<Rightarrow> vec" where
  \<comment> \<open>writes the entries into the columns \<open>c0\<close>, \<open>c0+1\<close>, ... of a row\<close>
  "set_cols c0 es row = foldl (\<lambda>rw c. rw[c0 + c := es ! c]) row [0..<length es]"

definition jac_loop :: "nat \<Rightarrow> nat \<Rightarrow> nat \<Rightarrow> ray list \<Rightarrow> vec \<Rightarrow> hypo list \<Rightarrow> nat list \<Rightarrow> nat
    \<Rightarrow> mat \<Rightarrow> error + mat" where
  \<comment> \<open>\<open>for ns in range(n)\<close>: row \<open>off + ns\<close> of \<open>H\<close> gets \<open>m\<close> entries from column \<open>c0\<close> on,
      computed from \<open>rays[ns]\<close> and \<open>v0[ns]\<close>\<close>
  "jac_loop m c0 off rays v0 hyp0 indh n H =
     efold (\<lambda>ns H.
       ebind (getitem rays (int ns)) (\<lambda>raysi.
       ebind (getitem v0 (int ns)) (\<lambda>V0.
       ebind (ray_dir raysi hyp0 indh) (\<lambda>d.
       ebind (jac_entries m V0 d) (\<lambda>es.
         Inr (H[off + ns := set_cols c0 es (H ! (off + ns))]))))))
       [0..<n] H"









definition ones :: "nat \<Rightarrow> nat \<Rightarrow> mat" where
  \<comment> \<open>\<open>np.ones((n,m))\<close>\<close>
  "ones n m = replicate n (replicate m 1)"








text \<open>
  \<open>_relocPS\<close>, lines 1591-1608: the rows of \<open>H\<close> in the step on all four parameters. Both
  loops write row \<open>ns\<close> (\<open>H[ns,1]\<close>, \<open>H[ns,2]\<close>, \<open>H[ns,3]\<close>).
\<close>

definition relocPS_jac4 :: "ray list \<Rightarrow> vec \<Rightarrow> ray list \<Rightarrow> vec \<Rightarrow> hypo list \<Rightarrow> nat list
    \<Rightarrow> nat \<Rightarrow> nat \<Rightarrow> mat \<Rightarrow> error + mat" where
  "relocPS_jac4 raysp v0p rayss v0s hyp0 indh nstp nsts H =
     ebind (jac_loop 3 1 0 raysp v0p hyp0 indh nstp H) (\<lambda>H1.
       jac_loop 3 1 0 rayss v0s hyp0 indh nsts H1)"









section \<open>Properties\<close>

lemma efold_first_fails: "isl (f x s) \<Longrightarrow> isl (efold f (x # xs) s)"
  by (cases "f x s") auto

lemma cal_fill_row_unbound: "rcv_cal st = None \<Longrightarrow> isl (cal_fill_row rcv caldata i st)"
  by (auto simp: cal_fill_row_def ebind_def split: sum.splits)

lemma nonzero_nonempty: "x \<in> set xs \<Longrightarrow> P x \<Longrightarrow> nonzero P xs \<noteq> []"
  by (auto simp: nonzero_def filter_empty_conv in_set_conv_nth)

lemma cal_shot_unbound:
  assumes "rcv_cal st = None" and "c \<in> set (map cid caldata)"
  shows "isl (cal_shot use_sc ncols rcv caldata c st)"
proof -
  from assms(2) obtain r where r: "r \<in> set caldata" "cid r = c" by auto
  then have "nonzero (\<lambda>r. cid r = c) caldata \<noteq> []"
    by (rule nonzero_nonempty)
  then obtain i ix where ix: "nonzero (\<lambda>r. cid r = c) caldata = i # ix"
    by (cases "nonzero (\<lambda>r. cid r = c) caldata") auto
  have "isl (efold (cal_fill_row rcv caldata) (i # ix) st)"
    by (rule efold_first_fails) (rule cal_fill_row_unbound [OF assms(1)])
  then show ?thesis
    by (auto simp: cal_shot_def Let_def ix ebind_def split: sum.splits)
qed

text \<open>
  C5. Claim: every call of \<open>jointHypoVelPS\<close> with non-empty calibration data completes
  the calibration pre-processing, the buffer \<open>rcv_cal\<close> being allocated before its first
  use. The code: called with the name \<open>rcv_cal\<close> unbound (any caller importing the
  module), the pre-processing of non-empty calibration data always raises.
\<close>

theorem jointHypoVelPS_cal_raises:
  "caldata \<noteq> [] \<Longrightarrow> isl (jointHypoVelPS_cal None use_sc rcv caldata)"
proof -
  assume ne: "caldata \<noteq> []"
  then have "set (np_unique (map cid caldata)) \<noteq> {}"
    by (simp add: np_unique_def)
  then have "np_unique (map cid caldata) \<noteq> []"
    by auto
  then obtain c cs where cs: "np_unique (map cid caldata) = c # cs"
    by (cases "np_unique (map cid caldata)") auto
  then have "c \<in> set (np_unique (map cid caldata))" by simp
  then have c: "c \<in> set (map cid caldata)" by (simp add: np_unique_def)
  have "isl (cal_shot use_sc (2 * nsta_of use_sc rcv) rcv caldata c
          \<lparr>rcv_cal = None, Msc_cal = []\<rparr>)"
    by (rule cal_shot_unbound [OF _ c]) simp
  then have "isl (efold (cal_shot use_sc (2 * nsta_of use_sc rcv) rcv caldata) (c # cs)
          \<lparr>rcv_cal = None, Msc_cal = []\<rparr>)"
    by (rule efold_first_fails)
  with ne show ?thesis
    by (simp add: jointHypoVelPS_cal_def cal_loop_def cs)
qed

theorem jointHypoVelPS_cal_raises_witness:
  "[\<lparr>cid = 0, ctobs = 1 / 10, crcv = 0, csx = 1, csy = 1, csz = 1\<rparr>] \<noteq> []
   \<and> isl (jointHypoVelPS_cal None True [(1, 2, 3)]
         [\<lparr>cid = 0, ctobs = 1 / 10, crcv = 0, csx = 1, csy = 1, csz = 1\<rparr>])
   \<and> jointHypoVelPS_cal None True [(1, 2, 3)]
         [\<lparr>cid = 0, ctobs = 1 / 10, crcv = 0, csx = 1, csy = 1, csz = 1\<rparr>] = Inl NameError
   \<and> jointHypoVel_cal True [(1, 2, 3)]
         [\<lparr>cid = 0, ctobs = 1 / 10, crcv = 0, csx = 1, csy = 1, csz = 1\<rparr>]
       = Inr \<lparr>rcv_cal = Some [(1, 2, 3)], Msc_cal = [[[1]]]\<rparr>"
proof -
  let ?c = "[\<lparr>cid = 0, ctobs = 1 / 10, crcv = 0, csx = 1, csy = 1, csz = 1\<rparr>]"
  have ne: "?c \<noteq> []" by simp
  have "isl (jointHypoVelPS_cal None True [(1, 2, 3)] ?c)"
    by (rule jointHypoVelPS_cal_raises [OF ne])
  moreover have "jointHypoVelPS_cal None True [(1, 2, 3)] ?c = Inl NameError"
    by (simp add: jointHypoVelPS_cal_def cal_loop_def np_unique_def cal_shot_def nonzero_def
        cal_fill_row_def ebind_def getitem_def norm_index_def eps_index_def py_int_def)
  moreover have "jointHypoVel_cal True [(1, 2, 3)] ?c
       = Inr \<lparr>rcv_cal = Some [(1, 2, 3)], Msc_cal = [[[1]]]\<rparr>"
    by (simp add: jointHypoVel_cal_def cal_loop_def np_unique_def cal_shot_def nonzero_def
        cal_fill_row_def ebind_def getitem_def setitem_def norm_index_def eps_index_def py_int_def
        nsta_of_def cal_sc_row_def)
  ultimately show ?thesis using ne by blast
qed








lemma velPS_inv_init:
  "length Vp0 = nnodes \<Longrightarrow> length Vs0 = nnodes \<Longrightarrow>
   velPS_inv invert_VsVp nnodes (velPS_init invert_VsVp Vp0 Vs0)"
  by (simp add: velPS_inv_def velPS_init_def)









lemma tdist_same_place: "same_place a a' \<Longrightarrow> tdist a b = tdist a' b"
  by (simp add: tdist_def same_place_def)

lemma find_nonzero_None:
  "(find Q (nonzero P xs) = None) = (\<forall>ii<length xs. P (xs ! ii) \<longrightarrow> \<not> Q ii)"
  by (auto simp: find_None_iff nonzero_def)

lemma find_nonzero_Some:
  "find Q (nonzero P xs) = Some ii \<Longrightarrow> ii < length xs \<and> P (xs ! ii) \<and> Q ii"
  by (auto simp: find_Some_iff nonzero_def dest!: nth_mem)

lemma tie_step_Inl:
  assumes "same_place (Vpts2 ! i) (Vpts ! i)"
  shows "(tie_step Vpts (nonzero (\<lambda>r. pphase r = 0) Vpts) i Vpts2 = Inl e)
       = (e = ValueError \<and> (\<forall>ii. \<not> collocated Vpts i ii))"
proof (cases "find (\<lambda>ii. tdist (Vpts ! i) (Vpts ! ii) < 1 / 100000)
                (nonzero (\<lambda>r. pphase r = 0) Vpts)")
  case None
  then have "\<forall>ii. \<not> collocated Vpts i ii"
    by (auto simp: find_nonzero_None collocated_def)
  then show ?thesis
    using None by (auto simp: tie_step_def tdist_same_place [OF assms])
next
  case (Some ii)
  then have "collocated Vpts i ii"
    by (auto simp: collocated_def dest!: find_nonzero_Some)
  then show ?thesis
    using Some by (auto simp: tie_step_def tdist_same_place [OF assms])
qed

lemma tie_step_Inr:
  assumes "same_place (Vpts2 ! i) (Vpts ! i)"
    and "tie_step Vpts (nonzero (\<lambda>r. pphase r = 0) Vpts) i Vpts2 = Inr W"
  shows "\<exists>ii. collocated Vpts i ii
       \<and> W = Vpts2[i := (Vpts2 ! i)\<lparr>pv := pv (Vpts ! i) / pv (Vpts ! ii)\<rparr>]"
proof (cases "find (\<lambda>ii. tdist (Vpts ! i) (Vpts ! ii) < 1 / 100000)
                (nonzero (\<lambda>r. pphase r = 0) Vpts)")
  case None
  then show ?thesis
    using assms(2) by (simp add: tie_step_def tdist_same_place [OF assms(1)])
next
  case (Some ii)
  then have "collocated Vpts i ii"
    by (auto simp: collocated_def dest!: find_nonzero_Some)
  then show ?thesis
    using Some assms(2) by (auto simp: tie_step_def tdist_same_place [OF assms(1)])
qed

lemma same_place_update:
  "same_place (a :: vpt) b \<Longrightarrow> a\<lparr>pv := v\<rparr> = b\<lparr>pv := v\<rparr>"
  by (cases a, cases b) (simp add: same_place_def)

lemma same_place_pv: "same_place (a\<lparr>pv := v\<rparr>) b = same_place a b"
  by (simp add: same_place_def)

lemma tie_fold:
  assumes "length W = length Vpts" and "\<forall>k<length Vpts. same_place (W ! k) (Vpts ! k)"
    and "\<forall>i\<in>set js. i < length Vpts"
  shows "(case efold (tie_step Vpts (nonzero (\<lambda>r. pphase r = 0) Vpts)) js W of
          Inl e \<Rightarrow> e = ValueError \<and> (\<exists>i\<in>set js. \<forall>ii. \<not> collocated Vpts i ii)
        | Inr W' \<Rightarrow> (\<forall>i\<in>set js. \<exists>ii. collocated Vpts i ii)
            \<and> length W' = length Vpts
            \<and> (\<forall>k<length Vpts.
                  if k \<in> set js
                  then \<exists>ii. collocated Vpts k ii
                         \<and> W' ! k = (Vpts ! k)\<lparr>pv := pv (Vpts ! k) / pv (Vpts ! ii)\<rparr>
                  else W' ! k = W ! k))"
  using assms
proof (induction js arbitrary: W)
  case Nil
  then show ?case by simp
next
  case (Cons i js)
  let ?ip = "nonzero (\<lambda>r. pphase r = 0) Vpts"
  have i: "i < length Vpts" using Cons.prems(3) by simp
  have sp: "same_place (W ! i) (Vpts ! i)" using Cons.prems(2) i by blast
  show ?case
  proof (cases "tie_step Vpts ?ip i W")
    case (Inl e)
    then have "e = ValueError \<and> (\<forall>ii. \<not> collocated Vpts i ii)"
      using tie_step_Inl [OF sp] by blast
    then show ?thesis using Inl by simp
  next
    case (Inr W1)
    then obtain ii where ii: "collocated Vpts i ii"
      and W1: "W1 = W[i := (W ! i)\<lparr>pv := pv (Vpts ! i) / pv (Vpts ! ii)\<rparr>]"
      using tie_step_Inr [OF sp] by blast
    have W1i: "W1 ! i = (Vpts ! i)\<lparr>pv := pv (Vpts ! i) / pv (Vpts ! ii)\<rparr>"
      using W1 i Cons.prems(1) same_place_update [OF sp] by simp
    have len1: "length W1 = length Vpts" using W1 Cons.prems(1) by simp
    have sp1: "\<forall>k<length Vpts. same_place (W1 ! k) (Vpts ! k)"
    proof (intro allI impI)
      fix k assume k: "k < length Vpts"
      then have "same_place (W ! k) (Vpts ! k)" using Cons.prems(2) by blast
      then show "same_place (W1 ! k) (Vpts ! k)"
        unfolding W1 using k Cons.prems(1) by (cases "k = i") (simp_all add: same_place_pv)
    qed
    have js: "\<forall>i\<in>set js. i < length Vpts" using Cons.prems(3) by simp
    note IH = Cons.IH [OF len1 sp1 js]
    show ?thesis
    proof (cases "efold (tie_step Vpts ?ip) js W1")
      case l: (Inl e)
      then show ?thesis using IH Inr by simp
    next
      case r: (Inr W')
      have rest: "\<forall>i\<in>set js. \<exists>ii. collocated Vpts i ii"
        and len': "length W' = length Vpts"
        and nth': "\<forall>k<length Vpts.
                  if k \<in> set js
                  then \<exists>ii. collocated Vpts k ii
                         \<and> W' ! k = (Vpts ! k)\<lparr>pv := pv (Vpts ! k) / pv (Vpts ! ii)\<rparr>
                  else W' ! k = W1 ! k"
        using IH r by simp_all
      have "\<forall>k<length Vpts.
                  if k \<in> set (i # js)
                  then \<exists>ii. collocated Vpts k ii
                         \<and> W' ! k = (Vpts ! k)\<lparr>pv := pv (Vpts ! k) / pv (Vpts ! ii)\<rparr>
                  else W' ! k = W ! k"
      proof (intro allI impI)
        fix k assume k: "k < length Vpts"
        show "if k \<in> set (i # js)
                  then \<exists>ii. collocated Vpts k ii
                         \<and> W' ! k = (Vpts ! k)\<lparr>pv := pv (Vpts ! k) / pv (Vpts ! ii)\<rparr>
                  else W' ! k = W ! k"
        proof (cases "k \<in> set js")
          case True
          then show ?thesis using nth' k by auto
        next
          case False
          then have eq: "W' ! k = W1 ! k" using nth' k by auto
          show ?thesis
          proof (cases "k = i")
            case True
            then show ?thesis using eq W1i ii by auto
          next
            case ne: False
            then show ?thesis using eq False W1 by simp
          qed
        qed
      qed
      moreover have "\<exists>ii. collocated Vpts i ii" using ii by blast
      ultimately show ?thesis using Inr r rest len' by simp
    qed
  qed
qed

text \<open>
  C7. In the ratio mode the tie-point loop raises (and then \<open>ValueError\<close>) exactly when
  some \<open>S\<close> tie point has no \<open>P\<close> tie point at distance below \<open>1e-5\<close>; otherwise it
  returns the table in which the value of every \<open>S\<close> tie point is divided by the value of
  a collocated \<open>P\<close> tie point and every other row is unchanged.
\<close>

theorem tie_ratio_collocation:
  "((\<exists>e. tie_ratio Vpts = Inl e)
      = (\<exists>i<length Vpts. pphase (Vpts ! i) = 1 \<and> (\<forall>ii. \<not> collocated Vpts i ii)))
   \<and> (\<forall>e. tie_ratio Vpts = Inl e \<longrightarrow> e = ValueError)
   \<and> (\<forall>W. tie_ratio Vpts = Inr W \<longrightarrow>
         length W = length Vpts
         \<and> (\<forall>i<length Vpts.
              if pphase (Vpts ! i) = 1
              then \<exists>ii. collocated Vpts i ii
                     \<and> W ! i = (Vpts ! i)\<lparr>pv := pv (Vpts ! i) / pv (Vpts ! ii)\<rparr>
              else W ! i = Vpts ! i))"
proof -
  let ?js = "nonzero (\<lambda>r. pphase r = 1) Vpts"
  have set_js: "set ?js = {i. i < length Vpts \<and> pphase (Vpts ! i) = 1}"
    by (auto simp: nonzero_def)
  have F: "case efold (tie_step Vpts (nonzero (\<lambda>r. pphase r = 0) Vpts)) ?js Vpts of
          Inl e \<Rightarrow> e = ValueError \<and> (\<exists>i\<in>set ?js. \<forall>ii. \<not> collocated Vpts i ii)
        | Inr W' \<Rightarrow> (\<forall>i\<in>set ?js. \<exists>ii. collocated Vpts i ii)
            \<and> length W' = length Vpts
            \<and> (\<forall>k<length Vpts.
                  if k \<in> set ?js
                  then \<exists>ii. collocated Vpts k ii
                         \<and> W' ! k = (Vpts ! k)\<lparr>pv := pv (Vpts ! k) / pv (Vpts ! ii)\<rparr>
                  else W' ! k = Vpts ! k)"
    by (rule tie_fold) (auto simp: same_place_def set_js)
  have R: "tie_ratio Vpts = efold (tie_step Vpts (nonzero (\<lambda>r. pphase r = 0) Vpts)) ?js Vpts"
    by (simp add: tie_ratio_def)
  show ?thesis
  proof (cases "tie_ratio Vpts")
    case (Inl e)
    then show ?thesis using F R by (auto simp: set_js)
  next
    case (Inr W)
    then have a: "\<forall>i\<in>set ?js. \<exists>ii. collocated Vpts i ii"
      and b: "length W = length Vpts"
      and c: "\<forall>k<length Vpts.
                  if k \<in> set ?js
                  then \<exists>ii. collocated Vpts k ii
                         \<and> W ! k = (Vpts ! k)\<lparr>pv := pv (Vpts ! k) / pv (Vpts ! ii)\<rparr>
                  else W ! k = Vpts ! k"
      using F R by simp_all
    have 1: "\<not> (\<exists>i<length Vpts. pphase (Vpts ! i) = 1 \<and> (\<forall>ii. \<not> collocated Vpts i ii))"
      using a by (auto simp: set_js)
    have 2: "\<forall>i<length Vpts.
              if pphase (Vpts ! i) = 1
              then \<exists>ii. collocated Vpts i ii
                     \<and> W ! i = (Vpts ! i)\<lparr>pv := pv (Vpts ! i) / pv (Vpts ! ii)\<rparr>
              else W ! i = Vpts ! i"
      using c by (auto simp: set_js)
    show ?thesis using Inr 1 2 b by simp
  qed
qed

theorem tie_ratio_collocation_witness:
  "tie_ratio [\<lparr>pv = 4000, px = 1, py = 2, pz = 3, pphase = 0\<rparr>,
              \<lparr>pv = 2000, px = 1, py = 2, pz = 3, pphase = 1\<rparr>]
     = Inr [\<lparr>pv = 4000, px = 1, py = 2, pz = 3, pphase = 0\<rparr>,
            \<lparr>pv = 1 / 2, px = 1, py = 2, pz = 3, pphase = 1\<rparr>]
   \<and> tie_ratio [\<lparr>pv = 4000, px = 1, py = 2, pz = 3, pphase = 0\<rparr>,
                \<lparr>pv = 2000, px = 1, py = 2, pz = 4, pphase = 1\<rparr>] = Inl ValueError
   \<and> (\<exists>i<2. pphase ([\<lparr>pv = 4000, px = 1, py = 2, pz = 3, pphase = 0\<rparr>,
                \<lparr>pv = 2000, px = 1, py = 2, pz = 4, pphase = 1\<rparr>] ! i) = 1
        \<and> (\<forall>ii. \<not> collocated [\<lparr>pv = 4000, px = 1, py = 2, pz = 3, pphase = 0\<rparr>,
                \<lparr>pv = 2000, px = 1, py = 2, pz = 4, pphase = 1\<rparr>] i ii))"
proof -
  let ?A = "[\<lparr>pv = 4000, px = 1, py = 2, pz = 3, pphase = 0\<rparr>,
              \<lparr>pv = 2000, px = 1, py = 2, pz = 3, pphase = 1\<rparr>]"
  let ?B = "[\<lparr>pv = 4000, px = 1, py = 2, pz = 3, pphase = 0\<rparr>,
                \<lparr>pv = 2000, px = 1, py = 2, pz = 4, pphase = 1\<rparr>]"
  have A: "tie_ratio ?A = Inr [\<lparr>pv = 4000, px = 1, py = 2, pz = 3, pphase = 0\<rparr>,
            \<lparr>pv = 1 / 2, px = 1, py = 2, pz = 3, pphase = 1\<rparr>]"
    by (simp add: tie_ratio_def nonzero_def tie_step_def tdist_def)
  have B: "tie_ratio ?B = Inl ValueError"
    by (simp add: tie_ratio_def nonzero_def tie_step_def tdist_def)
  have "\<exists>i<length ?B. pphase (?B ! i) = 1 \<and> (\<forall>ii. \<not> collocated ?B i ii)"
    using tie_ratio_collocation [of ?B] B by blast
  then show ?thesis using A B by (simp add: numeral_2_eq_2)
qed

lemma map2_assoc:
  assumes "\<And>x y z. f (f x y) z = f x (f y z)"
  shows "map2 f (map2 f a b) c = map2 f a (map2 f b c)"
proof (induction a arbitrary: b c)
  case Nil
  then show ?case by simp
next
  case (Cons x a)
  then show ?case by (cases b; cases c) (simp_all add: assms)
qed

lemma map_map2_distrib:
  assumes "\<And>x y. h (f x y) = g (h x) (h y)"
  shows "map h (map2 f a b) = map2 g (map h a) (map h b)"
proof (induction a arbitrary: b)
  case Nil
  then show ?case by simp
next
  case (Cons x a)
  then show ?case by (cases b) (simp_all add: assms)
qed

lemma vadd_assoc: "map2 (+) (map2 (+) (a :: vec) b) c = map2 (+) a (map2 (+) b c)"
  by (rule map2_assoc) simp

lemma madd_assoc: "madd (madd A B) C = madd A (madd B C)"
  unfolding madd_def by (rule map2_assoc) (rule vadd_assoc)

lemma vscale_add: "map ((*) c) (map2 (+) (a :: vec) b) = map2 (+) (map ((*) c) a) (map ((*) c) b)"
  by (rule map_map2_distrib) (simp add: algebra_simps)

lemma smul_madd: "smul c (madd A B) = madd (smul c A) (smul c B)"
  unfolding madd_def smul_def by (rule map_map2_distrib) (rule vscale_add)

lemma smul_smul: "smul a (smul b A) = smul (a * b) A"
  by (simp add: smul_def comp_def mult.assoc)

lemma normal_base_eq:
  "normal_base par n Kx1 Ky1 Kz1 M1 dP1 u1
   = madd (madd (madd (gram n M1)
          (smul (reg_lmbda par (fro (gram n M1)) (fro (gram n Kx1)))
             (madd (madd (gram n Kx1) (gram n Ky1)) (smul (par_wzK par) (gram n Kz1)))))
        (smul (reg_gamma par (fro (gram n M1)) (fro (gram n dP1))) (gram n dP1)))
      (outer u1)"
  by (simp add: normal_base_def Let_def smul_madd smul_smul madd_assoc mult.commute)

text \<open>
  C6. In both solvers the weights are \<open>lambda = par.lmbda * nM / nK\<close>,
  \<open>gamma = par.gamma * nM / nP\<close> (\<open>par.gamma\<close> when \<open>nP = 0\<close>) and, with tie points,
  \<open>alpha = par.alpha * nM / nD\<close>, and the matrix assembled is
  \<open>M1\<^sup>T M1 + lambda (KtKx + KtKy + wzK KtKz) + gamma dP1\<^sup>T dP1 + u1 u1\<^sup>T\<close>, plus
  \<open>alpha D1\<^sup>T D1\<close> when tie points are present. (In the two-phase solver the lines
  raise after assembling \<open>A\<close> exactly when there are no tie points.)
\<close>

theorem normal_matrix_assembly:
  "(let nM = fro (gram n M1); nK = fro (gram n Kx1); nP = fro (gram n dP1);
        lam = par_lmbda par * nM / nK;
        gam = (if nP = 0 then par_gamma par else par_gamma par * nM / nP);
        B = madd (madd (madd (gram n M1)
                    (smul lam (madd (madd (gram n Kx1) (gram n Ky1))
                                (smul (par_wzK par) (gram n Kz1)))))
                  (smul gam (gram n dP1)))
              (outer u1);
        A = (case tie of
               None \<Rightarrow> B
             | Some D1 \<Rightarrow> madd B (smul (par_alpha par * nM / fro (gram n D1)) (gram n D1)))
    in jointHypoVel_A par n Kx1 Ky1 Kz1 M1 dP1 u1 tie = A
       \<and> snd (jointHypoVelPS_A par n Kx1 Ky1 Kz1 M1 dP1 u1 tie) = A
       \<and> (fst (jointHypoVelPS_A par n Kx1 Ky1 Kz1 M1 dP1 u1 tie) = None) = (tie \<noteq> None))"
  by (cases tie)
     (simp_all add: jointHypoVel_A_def jointHypoVelPS_A_def normal_base_eq tie_term_def
        reg_lmbda_def reg_gamma_def reg_alpha_def Let_def)

theorem normal_matrix_assembly_witness:
  "jointHypoVel_A \<lparr>par_lmbda = 2, par_gamma = 1, par_alpha = 1, par_wzK = 1 / 10\<rparr> 1
       [[1]] [[1]] [[1]] [[1]] [[0]] [1] (Some [[1]]) = [[36 / 5]]
   \<and> jointHypoVelPS_A \<lparr>par_lmbda = 2, par_gamma = 1, par_alpha = 1, par_wzK = 1 / 10\<rparr> 1
       [[1]] [[1]] [[1]] [[1]] [[0]] [1] None = (Some UnboundLocalError, [[31 / 5]])"
proof -
  let ?par = "\<lparr>par_lmbda = 2, par_gamma = 1, par_alpha = 1, par_wzK = 1 / 10\<rparr>"
  have g: "gram 1 [[1]] = [[1]]" "gram 1 [[0]] = [[0]]"
    "gram (Suc 0) [[1]] = [[1]]" "gram (Suc 0) [[0]] = [[0]]"
    by (simp_all add: gram_def)
  have f: "fro [[1]] = 1" "fro [[0]] = 0"
    by (simp_all add: fro_def)
  have o: "outer [1] = [[1]]"
    by (simp add: outer_def)
  have 1: "jointHypoVel_A ?par 1 [[1]] [[1]] [[1]] [[1]] [[0]] [1] (Some [[1]]) = [[36 / 5]]"
    using normal_matrix_assembly [of 1 "[[1]]" "[[1]]" "[[0]]" ?par "[[1]]" "[[1]]" "[1]"
        "Some [[1]]"]
    by (simp add: Let_def g f o madd_def smul_def)
  have 2: "jointHypoVelPS_A ?par 1 [[1]] [[1]] [[1]] [[1]] [[0]] [1] None
       = (Some UnboundLocalError, [[31 / 5]])"
    by (simp add: jointHypoVelPS_A_def normal_base_def Let_def g f o madd_def smul_def
        reg_lmbda_def reg_gamma_def)
  show ?thesis using 1 2 by simp
qed

lemma upt_0_4: "[0..<4] = [0, 1, 2, Suc 2]"
  by (simp add: upt_rec [of 0] upt_rec [of 1] upt_rec [of 2] upt_rec [of 3] upt_rec [of "Suc 0"]
      upt_rec [of "Suc 2"] eval_nat_numeral)

definition store_frame :: "nat \<Rightarrow> store \<Rightarrow> store \<Rightarrow> bool" where
  "store_frame loc hp hp' =
     (length hp' = length hp \<and> (\<forall>a. a \<noteq> loc \<longrightarrow> hp' ! a = hp ! a)
      \<and> map h_id (hp' ! loc) = map h_id (hp ! loc))"

lemma store_frame_refl: "store_frame loc hp hp"
  by (simp add: store_frame_def)

lemma store_frame_trans:
  "store_frame loc hp hp1 \<Longrightarrow> store_frame loc hp1 hp2 \<Longrightarrow> store_frame loc hp hp2"
  by (simp add: store_frame_def)

lemma shift_rows_ids: "map h_id (shift_rows e dh l) = map h_id l"
  by (cases dh) (simp add: shift_rows_def)

lemma store_frame_shift:
  "loc < length hp \<Longrightarrow> store_frame loc hp (hp[loc := shift_rows e dh (hp ! loc)])"
  by (simp add: store_frame_def shift_rows_ids)

lemma gn_loop_frame:
  "loc < length hp \<Longrightarrow> store_frame loc hp (fst (gn_loop stepf convh e loc n hp res))"
proof (induction n arbitrary: hp res)
  case 0
  then show ?case by (simp add: store_frame_refl)
next
  case (Suc n)
  show ?case
  proof (cases "stepf (hp ! loc)")
    case (Inl err)
    then show ?thesis by (simp add: store_frame_refl)
  next
    case (Inr p)
    obtain rn od where p: "p = (rn, od)" by (cases p)
    show ?thesis
    proof (cases od)
      case None
      then show ?thesis using Inr p by (simp add: store_frame_refl)
    next
      case (Some dh)
      let ?hp' = "hp[loc := shift_rows e dh (hp ! loc)]"
      have f1: "store_frame loc hp ?hp'"
        by (rule store_frame_shift) (rule Suc.prems)
      have "loc < length ?hp'" using Suc.prems by simp
      then have f2: "store_frame loc ?hp' (fst (gn_loop stepf convh e loc n ?hp' (res @ [rn])))"
        by (rule Suc.IH)
      show ?thesis
        using Inr p Some f1 store_frame_trans [OF f1 f2] by (simp add: Let_def)
    qed
  qed
qed

lemma locate_event_frame:
  assumes "loc < length hp"
  shows "store_frame loc hp (fst (locate_event solve pinv vel_of data rcv maxit convh loc e hp))"
proof -
  have g: "store_frame loc hp (fst (gn_loop stepf convh e loc maxit hp []))" for stepf
    by (rule gn_loop_frame) (rule assms)
  let ?rows = "filter (\<lambda>r. o_ev r = e) data"
  show ?thesis
  proof (cases "emap (\<lambda>r. getitem rcv (eps_index (o_rcv r))) ?rows")
    case (Inl err)
    then show ?thesis by (simp add: locate_event_def store_frame_refl)
  next
    case x: (Inr x)
    show ?thesis
    proof (cases "emap vel_of ?rows")
      case (Inl err)
      then show ?thesis using x by (simp add: locate_event_def store_frame_refl)
    next
      case (Inr vel)
      obtain hp' r err
        where l: "gn_loop (gn_step solve pinv e x (map o_t ?rows) vel) convh e loc maxit hp []
                  = (hp', r, err)"
        by (cases "gn_loop (gn_step solve pinv e x (map o_t ?rows) vel) convh e loc maxit hp []")
      then have "store_frame loc hp hp'"
        using g [of "gn_step solve pinv e x (map o_t ?rows) vel"] by simp
      then show ?thesis using x Inr l by (simp add: locate_event_def)
    qed
  qed
qed

lemma ev_loop_frame:
  assumes "\<And>e hp. loc < length hp \<Longrightarrow> store_frame loc hp (fst (f e hp))"
  shows "loc < length hp \<Longrightarrow> store_frame loc hp (fst (ev_loop f es hp res))"
proof (induction es arbitrary: hp res)
  case Nil
  then show ?case by (simp add: store_frame_refl)
next
  case (Cons e es)
  obtain hp1 r err where f: "f e hp = (hp1, r, err)" by (cases "f e hp")
  have f1: "store_frame loc hp hp1" using assms [OF Cons.prems, of e] f by simp
  then have "loc < length hp1" using Cons.prems by (simp add: store_frame_def)
  then have f2: "store_frame loc hp1 (fst (ev_loop f es hp1 (res @ [r])))" by (rule Cons.IH)
  show ?case
    using f f1 store_frame_trans [OF f1 f2] by (cases err) simp_all
qed

lemma locator_frame:
  assumes "hinit < length hp"
  shows "case locator solve pinv vel_of hp data rcv hinit maxit convh of
           (hp', out) \<Rightarrow>
             take (length hp) hp' = hp
             \<and> (case out of
                  Inl err \<Rightarrow> True
                | Inr (loc, res) \<Rightarrow>
                    loc \<noteq> hinit \<and> loc < length hp'
                    \<and> map h_id (hp' ! loc) = map h_id (hp ! hinit))"
proof -
  let ?hp1 = "hp @ [hp ! hinit]"
  let ?R = "ev_loop (locate_event solve pinv vel_of data rcv maxit convh (length hp))
                (np_unique (map o_ev data)) ?hp1 []"
  have "store_frame (length hp) ?hp1 (fst ?R)"
    by (rule ev_loop_frame) (simp_all add: locate_event_frame)
  then have len: "length (fst ?R) = Suc (length hp)"
    and old: "\<forall>a<length hp. fst ?R ! a = hp ! a"
    and ids: "map h_id (fst ?R ! length hp) = map h_id (hp ! hinit)"
    by (auto simp: store_frame_def nth_append)
  have tk: "take (length hp) (fst ?R) = hp"
    using len old by (simp add: list_eq_iff_nth_eq)
  obtain hp' res err where R: "?R = (hp', res, err)" by (cases ?R)
  show ?thesis
    using assms tk len ids R
    by (cases err) (simp_all add: locator_def Let_def)
qed

text \<open>
  C10. \<open>hypoloc\<close> and \<open>hypolocPS\<close> leave every table the caller holds, \<open>hinit\<close> among
  them, as it was; the table they return is at a new address, and its column 0 (the event
  identifiers) is that of \<open>hinit\<close>.
\<close>

theorem locators_keep_hinit:
  assumes "hinit < length hp"
  shows "(case hypoloc solve pinv hp data rcv V hinit maxit convh of
           (hp', out) \<Rightarrow>
             take (length hp) hp' = hp
             \<and> (case out of
                  Inl err \<Rightarrow> True
                | Inr (loc, res) \<Rightarrow>
                    loc \<noteq> hinit \<and> loc < length hp'
                    \<and> map h_id (hp' ! loc) = map h_id (hp ! hinit)))
       \<and> (case hypolocPS solve pinv hp dataPS rcv VPS hinit maxit convh of
           (hp', out) \<Rightarrow>
             take (length hp) hp' = hp
             \<and> (case out of
                  Inl err \<Rightarrow> True
                | Inr (loc, res) \<Rightarrow>
                    loc \<noteq> hinit \<and> loc < length hp'
                    \<and> map h_id (hp' ! loc) = map h_id (hp ! hinit)))"
  unfolding hypoloc_def hypolocPS_def
  by (rule conjI) (rule locator_frame [OF assms])+

theorem locators_keep_hinit_witness:
  "hypoloc (\<lambda>A b. Finite (1 / 2, 1 / 4, 1 / 8, 1 / 16)) no_pinv
       [[\<lparr>h_id = 7, h_t0 = 0, h_x = 0, h_y = 0, h_z = 0\<rparr>]]
       [\<lparr>o_ev = 7, o_t = 1, o_rcv = 0\<rparr>] [(1, 0, 0)] 1 0 2 1
     = ([[\<lparr>h_id = 7, h_t0 = 0, h_x = 0, h_y = 0, h_z = 0\<rparr>],
         [\<lparr>h_id = 7, h_t0 = 1 / 2, h_x = 1 / 4, h_y = 1 / 8, h_z = 1 / 16\<rparr>]],
        Inr (1, [[0, 0]]))
   \<and> (case hypolocPS (\<lambda>A b. Finite (1 / 2, 1 / 4, 1 / 8, 1 / 16)) no_pinv
       [[\<lparr>h_id = 7, h_t0 = 0, h_x = 0, h_y = 0, h_z = 0\<rparr>]]
       [\<lparr>o_ev = 7, o_t = 1, o_rcv = 0, o_phase = 1\<rparr>] [(1, 0, 0)] (2, 1) 0 2 1 of
         (hp', out) \<Rightarrow>
           take (length [[\<lparr>h_id = 7, h_t0 = 0, h_x = 0, h_y = 0, h_z = 0\<rparr>]]) hp'
             = [[\<lparr>h_id = 7, h_t0 = 0, h_x = 0, h_y = 0, h_z = 0\<rparr>]]
           \<and> (case out of
                Inl err \<Rightarrow> True
              | Inr (loc, res) \<Rightarrow>
                  loc \<noteq> 0 \<and> loc < length hp'
                  \<and> map h_id (hp' ! loc)
                    = map h_id ([[\<lparr>h_id = 7, h_t0 = 0, h_x = 0, h_y = 0, h_z = 0\<rparr>]] ! 0)))"
proof -
  let ?hp = "[[\<lparr>h_id = 7, h_t0 = 0, h_x = 0, h_y = 0, h_z = 0\<rparr>]]"
  have a: "(0::nat) < length ?hp" by simp
  have 1: "hypoloc (\<lambda>A b. Finite (1 / 2, 1 / 4, 1 / 8, 1 / 16)) no_pinv ?hp
       [\<lparr>o_ev = 7, o_t = 1, o_rcv = 0\<rparr>] [(1, 0, 0)] 1 0 2 1
     = ([[\<lparr>h_id = 7, h_t0 = 0, h_x = 0, h_y = 0, h_z = 0\<rparr>],
         [\<lparr>h_id = 7, h_t0 = 1 / 2, h_x = 1 / 4, h_y = 1 / 8, h_z = 1 / 16\<rparr>]],
        Inr (1, [[0, 0]]))"
    by (simp add: hypoloc_def locator_def np_unique_def locate_event_def getitem_def
        norm_index_def eps_index_def py_int_def ebind_def gn_step_def bc2_def Let_def
        norm2_def shift_rows_def converged_def numeral_2_eq_2)
  note 2 = locators_keep_hinit [OF a, where solve = "\<lambda>A b. Finite (1 / 2, 1 / 4, 1 / 8, 1 / 16)"
        and pinv = no_pinv and dataPS = "[\<lparr>o_ev = 7, o_t = 1, o_rcv = 0, o_phase = 1\<rparr>]"
        and rcv = "[(1, 0, 0)]" and VPS = "(2, 1)" and maxit = 2 and convh = 1
        and data = "[\<lparr>o_ev = 7, o_t = 1, o_rcv = 0\<rparr>]" and V = 1]
  show ?thesis
    by (rule conjI [OF 1 conjunct2 [OF 2]])
qed

text \<open>
  C2. Claim: when the normal equations are singular the locators fall back to the
  pseudo-inverse, and no error leaves the solve step. The code: \<open>np.linalg.solve\<close> stands
  before the \<open>try\<close>; on an event with one observation the normal equations are singular,
  it raises, and \<open>LinAlgError\<close> leaves \<open>hypoloc\<close> and \<open>hypolocPS\<close>, whatever the fallback
  would do.
\<close>

theorem singular_solve_propagates:
  "snd (hypoloc np_linalg_solve pinv [[\<lparr>h_id = 0, h_t0 = 0, h_x = 0, h_y = 0, h_z = 0\<rparr>]]
         [\<lparr>o_ev = 0, o_t = 1, o_rcv = 0\<rparr>] [(1, 0, 0)] 1 0 1 (1 / 10000)) = Inl LinAlgError
   \<and> snd (hypolocPS np_linalg_solve pinv [[\<lparr>h_id = 0, h_t0 = 0, h_x = 0, h_y = 0, h_z = 0\<rparr>]]
         [\<lparr>o_ev = 0, o_t = 1, o_rcv = 0, o_phase = 0\<rparr>] [(1, 0, 0)] (2, 1) 0 1 (1 / 10000))
       = Inl LinAlgError"
  by (simp add: hypoloc_def hypolocPS_def locator_def np_unique_def locate_event_def getitem_def
      norm_index_def eps_index_def py_int_def ebind_def gn_step_def bc2_def jac_row_def gram_def
      Ht_r_def np_linalg_solve_def Let_def upt_0_4)

text \<open>
  C1. Claim: in the step of \<open>_relocPS\<close> on all four parameters, row \<open>nstp + ns\<close> of \<open>H\<close>
  holds the derivatives of S observation \<open>ns\<close>. The code: with one P and one S
  observation (rays leaving the hypocenter at the origin along \<open>x\<close> and along \<open>y\<close>,
  \<open>V0 = 2\<close> and \<open>V0 = 1\<close>), the S loop overwrites row 0 and leaves row 1 as \<open>np.ones\<close> made
  it, where the claim has \<open>[1, -1/2, 0, 0]\<close> and \<open>[1, 0, -1, 0]\<close>; the loops of the first
  step, which write row \<open>ns + nstp\<close>, fill both rows.
\<close>

theorem relocPS_jacobian_S_rows:
  "relocPS_jac4 [[(0, 0, 0), (1, 0, 0)]] [2] [[(0, 0, 0), (0, 1, 0)]] [1]
       [\<lparr>h_id = 0, h_t0 = 0, h_x = 0, h_y = 0, h_z = 0\<rparr>] [0] 1 1 (ones 2 4)
     = Inr [[1, 0, - 1, 0], [1, 1, 1, 1]]
   \<and> ebind (jac_loop 2 0 0 [[(0, 0, 0), (1, 0, 0)]] [2]
              [\<lparr>h_id = 0, h_t0 = 0, h_x = 0, h_y = 0, h_z = 0\<rparr>] [0] 1 (ones 2 2))
         (jac_loop 2 0 1 [[(0, 0, 0), (0, 1, 0)]] [1]
              [\<lparr>h_id = 0, h_t0 = 0, h_x = 0, h_y = 0, h_z = 0\<rparr>] [0] 1)
     = Inr [[- 1 / 2, 0], [0, - 1]]"
  by (simp add: relocPS_jac4_def jac_loop_def ebind_def getitem_def norm_index_def ray_dir_def
      jac_entries_def set_cols_def ones_def numeral_2_eq_2 numeral_3_eq_3 eval_nat_numeral)

















end
